theory Spec2Isabelle
  imports Main
begin

section \<open>Kreo Assist: status display, alert acknowledgement, refresh and event times\<close>

text \<open>
  A shallow embedding of the display and synchronisation logic of the three screens of the
  caregiver application: the home screen (\<^verbatim>\<open>frontend/app/index.tsx\<close>), the alert
  screen and the event log (\<^verbatim>\<open>frontend/app/alert.tsx\<close>, which holds both
  components). React state is a record, a state setter is a record update, an awaited
  promise is a value of type \<open>'a settled\<close>, and console output, HTTP requests and
  dialogs are collected in a list of effects in the order the code performs them.
\<close>

subsection \<open>JavaScript values the screens depend on\<close>

text \<open>
  The result of reading a property of the object literal \<^verbatim>\<open>STATUS_COLORS\<close>: one of
  its own string values, \<^verbatim>\<open>undefined\<close>, or a member inherited from
  \<^verbatim>\<open>Object.prototype\<close> (a function or object, named here by its key).
\<close>

datatype js_value = JString string | JUndefined | JInherited string

text \<open>
  The property names every object literal inherits from \<^verbatim>\<open>Object.prototype\<close>
  (ECMAScript, with the legacy accessors of its Annex B).
\<close>

definition Object_prototype_keys :: "string list" where
  "Object_prototype_keys =
     [''constructor'', ''hasOwnProperty'', ''isPrototypeOf'', ''propertyIsEnumerable'',
      ''toLocaleString'', ''toString'', ''valueOf'', ''__proto__'',
      ''__defineGetter__'', ''__defineSetter__'', ''__lookupGetter__'', ''__lookupSetter__'']"

text \<open>\<^verbatim>\<open>obj[k]\<close> on an object literal with string values.\<close>

definition get_property :: "(string \<times> string) list \<Rightarrow> string \<Rightarrow> js_value" where
  "get_property obj k =
     (case map_of obj k of
        Some v \<Rightarrow> JString v
      | None \<Rightarrow> if k \<in> set Object_prototype_keys then JInherited k else JUndefined)"

text \<open>Truthiness, and \<^verbatim>\<open>a || b\<close>.\<close>

fun truthy :: "js_value \<Rightarrow> bool" where
  "truthy (JString s) = (s \<noteq> [])"
| "truthy JUndefined = False"
| "truthy (JInherited k) = True"

definition js_or :: "js_value \<Rightarrow> js_value \<Rightarrow> js_value" where
  "js_or a b = (if truthy a then a else b)"

text \<open>
  A promise that has settled: rejected with an error message, or fulfilled with a value.
  For a read, \<open>Rejected\<close> stands for \<^verbatim>\<open>fetch\<close> rejecting (network failure) as
  well as \<^verbatim>\<open>response.json()\<close> rejecting (malformed body): both throw inside the
  same \<^verbatim>\<open>try\<close> block.
\<close>

datatype 'a settled = Rejected string | Fulfilled 'a

subsection \<open>Data model (the TypeScript interfaces)\<close>

text \<open>The field \<^verbatim>\<open>id\<close> is written \<open>id'\<close>: \<open>id\<close> is the identity function of HOL.\<close>

record Alert =
  id' :: string
  type :: string
  description :: string
  timestamp :: string
  acknowledged :: bool

text \<open>
  \<^verbatim>\<open>current_status\<close> is declared \<^verbatim>\<open>string\<close>, but the JSON body is not checked
  at run time and the code reads it with \<^verbatim>\<open>status?.current_status || 'SAFE'\<close>:
  \<open>None\<close> is the absent field. The optional field \<^verbatim>\<open>description\<close> is
  \<open>status_description\<close> here, \<open>description\<close> being the field of \<open>Alert\<close>.
\<close>

record SystemStatus =
  current_status :: "string option"
  last_updated :: string
  status_description :: "string option"

record ConnectionStatus =
  is_connected :: bool
  last_ping :: string

subsection \<open>Home screen: status colour and icon\<close>

definition STATUS_COLORS :: "(string \<times> string) list" where
  "STATUS_COLORS =
     [(''SAFE'', ''#34C759''), (''WARNING'', ''#FFCC00''), (''EMERGENCY'', ''#FF3B30'')]"

definition getStatusColor :: "string \<Rightarrow> js_value" where
  "getStatusColor statusText =
     js_or (get_property STATUS_COLORS statusText) (JString ''#999999'')"

text \<open>\<^verbatim>\<open>const currentStatus = status?.current_status || 'SAFE'\<close>\<close>

definition currentStatus :: "SystemStatus option \<Rightarrow> string" where
  "currentStatus st =
     (case st of
        None \<Rightarrow> ''SAFE''
      | Some x \<Rightarrow>
          (case current_status x of
             None \<Rightarrow> ''SAFE''
           | Some c \<Rightarrow> if c = [] then ''SAFE'' else c))"

definition statusColor :: "SystemStatus option \<Rightarrow> js_value" where
  "statusColor st = getStatusColor (currentStatus st)"

text \<open>The name of the icon in the status badge.\<close>

definition statusIcon :: "string \<Rightarrow> string" where
  "statusIcon cur =
     (if cur = ''SAFE'' then ''checkmark-circle''
      else if cur = ''WARNING'' then ''warning''
      else ''alert-circle'')"

text \<open>The three recognised classifications.\<close>

definition recognised :: "string list" where
  "recognised = [''SAFE'', ''WARNING'', ''EMERGENCY'']"

text \<open>
  A snapshot whose classification is missing: no snapshot at all, no
  \<^verbatim>\<open>current_status\<close> field, or the empty string.
\<close>

definition classification_missing :: "SystemStatus option \<Rightarrow> bool" where
  "classification_missing st =
     (case st of
        None \<Rightarrow> True
      | Some x \<Rightarrow> (case current_status x of None \<Rightarrow> True | Some c \<Rightarrow> c = []))"

subsection \<open>Effects\<close>

text \<open>What a dialog button does when it is pressed.\<close>

datatype action = RouterBack

text \<open>
  The observable effects of the handlers, in program order. Paths are relative to
  \<^verbatim>\<open>API_BASE\<close>; the body of a POST is its JSON object as key/value pairs;
  \<open>ConsoleError\<close> is \<^verbatim>\<open>console.error(message, error)\<close>; \<open>RNAlert\<close> is
  \<^verbatim>\<open>RNAlert.alert(title, message, buttons)\<close>, a modal dialog.
\<close>

datatype effect =
    HttpGet string
  | HttpPost string "(string \<times> string) list"
  | ConsoleError string string
  | RNAlert string string "(string \<times> action) list"

subsection \<open>Home screen: state and refresh\<close>

record HomeScreen =
  status :: "SystemStatus option"
  connection :: "ConnectionStatus option"
  latestAlert :: "Alert option"
  loading :: bool
  refreshing :: bool

text \<open>The initial values given to \<^verbatim>\<open>useState\<close>.\<close>

definition HomeScreen_initial :: HomeScreen where
  "HomeScreen_initial =
     \<lparr>status = None, connection = None, latestAlert = None, loading = True,
      refreshing = False\<rparr>"

text \<open>
  How the three reads of one refresh settle. Each body is the parsed JSON, which may be
  \<^verbatim>\<open>null\<close>. \<open>connRes\<close> and \<open>alertRes\<close> say how the request would settle
  if it were issued.
\<close>

record home_responses =
  statusRes :: "SystemStatus option settled"
  connRes :: "ConnectionStatus option settled"
  alertRes :: "Alert option settled"

text \<open>
  \<^verbatim>\<open>fetchData\<close>: three awaited reads in sequence inside one \<^verbatim>\<open>try\<close>; the
  first rejection jumps to \<^verbatim>\<open>catch\<close>, which logs; \<^verbatim>\<open>finally\<close> clears
  both flags. State already set before the rejection stays set.
\<close>

definition fetchData :: "home_responses \<Rightarrow> HomeScreen \<Rightarrow> HomeScreen \<times> effect list" where
  "fetchData r s =
     (let (s', effs) =
        (case statusRes r of
           Rejected e \<Rightarrow>
             (s, [HttpGet ''/status'', ConsoleError ''Error fetching data:'' e])
         | Fulfilled statusData \<Rightarrow>
             (case connRes r of
                Rejected e \<Rightarrow>
                  (s\<lparr>status := statusData\<rparr>,
                   [HttpGet ''/status'', HttpGet ''/connection'',
                    ConsoleError ''Error fetching data:'' e])
              | Fulfilled connData \<Rightarrow>
                  (case alertRes r of
                     Rejected e \<Rightarrow>
                       (s\<lparr>status := statusData, connection := connData\<rparr>,
                        [HttpGet ''/status'', HttpGet ''/connection'',
                         HttpGet ''/alerts/latest'',
                         ConsoleError ''Error fetching data:'' e])
                   | Fulfilled alertData \<Rightarrow>
                       (s\<lparr>status := statusData, connection := connData,
                          latestAlert := alertData\<rparr>,
                        [HttpGet ''/status'', HttpGet ''/connection'',
                         HttpGet ''/alerts/latest'']))))
      in (s'\<lparr>loading := False, refreshing := False\<rparr>, effs))"

text \<open>\<^verbatim>\<open>onRefresh\<close>: pull-to-refresh and the Refresh button.\<close>

definition onRefresh :: "home_responses \<Rightarrow> HomeScreen \<Rightarrow> HomeScreen \<times> effect list" where
  "onRefresh r s = fetchData r (s\<lparr>refreshing := True\<rparr>)"

text \<open>
  The same code cut at its \<^verbatim>\<open>await\<close>s, for calls of \<^verbatim>\<open>fetchData\<close> that
  overlap (the timer, the refresh button and the demo buttons do not wait for one
  another): each function is the stretch of code that runs when one read has settled, in
  whatever state the screen is in by then. The flag in the result says whether the call
  goes on to its next read.
\<close>

definition fetchData_finally :: "HomeScreen \<Rightarrow> HomeScreen" where
  "fetchData_finally s = s\<lparr>loading := False, refreshing := False\<rparr>"

definition status_settled :: "SystemStatus option settled \<Rightarrow> HomeScreen \<Rightarrow> HomeScreen \<times> effect list \<times> bool" where
  "status_settled res s =
     (case res of
        Rejected e \<Rightarrow> (fetchData_finally s, [ConsoleError ''Error fetching data:'' e], False)
      | Fulfilled statusData \<Rightarrow> (s\<lparr>status := statusData\<rparr>, [HttpGet ''/connection''], True))"

definition connection_settled :: "ConnectionStatus option settled \<Rightarrow> HomeScreen \<Rightarrow> HomeScreen \<times> effect list \<times> bool" where
  "connection_settled res s =
     (case res of
        Rejected e \<Rightarrow> (fetchData_finally s, [ConsoleError ''Error fetching data:'' e], False)
      | Fulfilled connData \<Rightarrow> (s\<lparr>connection := connData\<rparr>, [HttpGet ''/alerts/latest''], True))"

definition alert_settled :: "Alert option settled \<Rightarrow> HomeScreen \<Rightarrow> HomeScreen \<times> effect list \<times> bool" where
  "alert_settled res s =
     (case res of
        Rejected e \<Rightarrow> (fetchData_finally s, [ConsoleError ''Error fetching data:'' e], False)
      | Fulfilled alertData \<Rightarrow> (fetchData_finally (s\<lparr>latestAlert := alertData\<rparr>), [], False))"

text \<open>
  What can happen on the home screen as far as its state goes: \<^verbatim>\<open>fetchData\<close> is
  called, the operator asks for a refresh, or a pending read of some call settles. Any
  order of these events is allowed here, which covers every way calls can overlap.
\<close>

datatype home_event =
    FetchDataCalled
  | RefreshPressed
  | StatusSettled "SystemStatus option settled"
  | ConnectionSettled "ConnectionStatus option settled"
  | AlertSettled "Alert option settled"

fun home_event_step :: "home_event \<Rightarrow> HomeScreen \<Rightarrow> HomeScreen \<times> effect list" where
  "home_event_step FetchDataCalled s = (s, [HttpGet ''/status''])"
| "home_event_step RefreshPressed s = (s\<lparr>refreshing := True\<rparr>, [HttpGet ''/status''])"
| "home_event_step (StatusSettled res) s = (let (s', effs, go) = status_settled res s in (s', effs))"
| "home_event_step (ConnectionSettled res) s =
     (let (s', effs, go) = connection_settled res s in (s', effs))"
| "home_event_step (AlertSettled res) s = (let (s', effs, go) = alert_settled res s in (s', effs))"

fun run_events :: "home_event list \<Rightarrow> HomeScreen \<Rightarrow> HomeScreen \<times> effect list" where
  "run_events [] s = (s, [])"
| "run_events (ev # evs) s =
     (let (s1, e1) = home_event_step ev s; (s2, e2) = run_events evs s1 in (s2, e1 @ e2))"

text \<open>The events with which a call of \<^verbatim>\<open>fetchData\<close> passes its \<^verbatim>\<open>finally\<close>.\<close>

fun completes :: "home_event \<Rightarrow> bool" where
  "completes (StatusSettled (Rejected e)) = True"
| "completes (ConnectionSettled (Rejected e)) = True"
| "completes (AlertSettled res) = True"
| "completes ev = False"

text \<open>The settlements that one call goes through when its reads settle as \<open>r\<close>.\<close>

definition settlements :: "home_responses \<Rightarrow> home_event list" where
  "settlements r =
     StatusSettled (statusRes r) #
     (case statusRes r of
        Rejected e \<Rightarrow> []
      | Fulfilled x \<Rightarrow>
          ConnectionSettled (connRes r) #
          (case connRes r of Rejected e \<Rightarrow> [] | Fulfilled y \<Rightarrow> [AlertSettled (alertRes r)]))"

text \<open>The error that ends a refresh early, if there is one.\<close>

definition first_rejection :: "home_responses \<Rightarrow> string option" where
  "first_rejection r =
     (case statusRes r of
        Rejected e \<Rightarrow> Some e
      | Fulfilled x \<Rightarrow>
          (case connRes r of
             Rejected e \<Rightarrow> Some e
           | Fulfilled y \<Rightarrow> (case alertRes r of Rejected e \<Rightarrow> Some e | Fulfilled z \<Rightarrow> None)))"

text \<open>
  What the home screen shows. Time stamps are kept as the strings handed to the locale
  formatters \<^verbatim>\<open>formatTime\<close> and \<^verbatim>\<open>formatDate\<close>; a part rendered under
  \<^verbatim>\<open>x && ...\<close> is present when \<open>x\<close> is truthy.
\<close>

record home_view =
  connectionIcon :: string
  connectionColor :: string
  connectionText :: string
  lastPingText :: "string option"
  statusBadgeColor :: js_value
  statusBadgeIcon :: string
  statusText :: string
  statusDescription :: "string option"
  lastUpdated :: "string option"
  alertPreview :: "Alert option"

datatype home_screen_view = HomeLoading | HomeView (the_view: home_view)

definition non_empty :: "string \<Rightarrow> string option" where
  "non_empty x = (if x = [] then None else Some x)"

definition HomeScreen_render :: "HomeScreen \<Rightarrow> home_screen_view" where
  "HomeScreen_render s =
     (if loading s then HomeLoading
      else
        (let connected = (case connection s of None \<Rightarrow> False | Some c \<Rightarrow> is_connected c);
             cur = currentStatus (status s)
         in HomeView
              \<lparr>connectionIcon = (if connected then ''radio'' else ''radio-outline''),
               connectionColor = (if connected then ''#34C759'' else ''#FF3B30''),
               connectionText = (if connected then ''Connected'' else ''Disconnected''),
               lastPingText =
                 (case connection s of None \<Rightarrow> None | Some c \<Rightarrow> non_empty (last_ping c)),
               statusBadgeColor = getStatusColor cur,
               statusBadgeIcon = statusIcon cur,
               statusText = cur,
               statusDescription =
                 (case status s of
                    None \<Rightarrow> None
                  | Some x \<Rightarrow>
                      (case status_description x of None \<Rightarrow> None | Some d \<Rightarrow> non_empty d)),
               lastUpdated =
                 (case status s of None \<Rightarrow> None | Some x \<Rightarrow> non_empty (last_updated x)),
               alertPreview = latestAlert s\<rparr>))"

subsection \<open>Alert screen\<close>

record AlertScreen =
  alert :: "Alert option"
  loading :: bool
  acknowledging :: bool

definition AlertScreen_initial :: AlertScreen where
  "AlertScreen_initial = \<lparr>alert = None, loading = True, acknowledging = False\<rparr>"

text \<open>\<^verbatim>\<open>fetchLatestAlert\<close>, run once when the screen is mounted.\<close>

definition fetchLatestAlert :: "Alert option settled \<Rightarrow> AlertScreen \<Rightarrow> AlertScreen \<times> effect list" where
  "fetchLatestAlert res s =
     (let (s', effs) =
        (case res of
           Rejected e \<Rightarrow>
             (s, [HttpGet ''/alerts/latest'', ConsoleError ''Error fetching alert:'' e])
         | Fulfilled data \<Rightarrow> (s\<lparr>alert := data\<rparr>, [HttpGet ''/alerts/latest'']))
      in (s'\<lparr>AlertScreen.loading := False\<rparr>, effs))"

text \<open>
  The reply to the POST: \<^verbatim>\<open>response.ok\<close> holds exactly for a status code in
  200..299.
\<close>

record Response =
  http_status :: nat

definition ok :: "Response \<Rightarrow> bool" where
  "ok r = (200 \<le> http_status r \<and> http_status r \<le> 299)"

text \<open>
  \<^verbatim>\<open>handleAcknowledge\<close> up to its \<^verbatim>\<open>await\<close>: \<open>None\<close> when the guard
  \<^verbatim>\<open>if (!alert) return\<close> fires, otherwise the state after
  \<^verbatim>\<open>setAcknowledging(true)\<close> and the request that is issued.
\<close>

definition handleAcknowledge_begin :: "AlertScreen \<Rightarrow> (AlertScreen \<times> effect) option" where
  "handleAcknowledge_begin s =
     (case alert s of
        None \<Rightarrow> None
      | Some a \<Rightarrow>
          Some (s\<lparr>acknowledging := True\<rparr>,
                HttpPost ''/alerts/acknowledge'' [(''alert_id'', id' a)]))"

text \<open>
  \<^verbatim>\<open>handleAcknowledge\<close> from the moment the POST has settled: the rest of the
  \<^verbatim>\<open>try\<close> block, \<^verbatim>\<open>catch\<close> and \<^verbatim>\<open>finally\<close>.
\<close>

definition handleAcknowledge_resume :: "Response settled \<Rightarrow> AlertScreen \<Rightarrow> AlertScreen \<times> effect list" where
  "handleAcknowledge_resume res s =
     (let effs =
        (case res of
           Fulfilled response \<Rightarrow>
             (if ok response
              then [RNAlert ''Alert Acknowledged''
                      ''The alert has been marked as acknowledged.''
                      [(''OK'', RouterBack)]]
              else [])
         | Rejected e \<Rightarrow>
             [ConsoleError ''Error acknowledging alert:'' e,
              RNAlert ''Error'' ''Failed to acknowledge alert'' []])
      in (s\<lparr>acknowledging := False\<rparr>, effs))"

text \<open>One whole invocation, the POST settling as \<open>res\<close>.\<close>

definition handleAcknowledge :: "Response settled \<Rightarrow> AlertScreen \<Rightarrow> AlertScreen \<times> effect list" where
  "handleAcknowledge res s =
     (case handleAcknowledge_begin s of
        None \<Rightarrow> (s, [])
      | Some (s1, request) \<Rightarrow>
          (let (s2, effs) = handleAcknowledge_resume res s1 in (s2, request # effs)))"

text \<open>What the alert screen shows, and what the operator can press there.\<close>

record alert_details =
  isEmergency :: bool
  alertColor :: string
  alertIcon :: string
  messageText :: string
  triggeredAt :: string
  showsEmergencyInstructions :: bool
  acknowledgeDisabled :: bool

datatype alert_screen_view = AlertLoading | NoActiveAlerts | AlertDetails alert_details

definition AlertScreen_render :: "AlertScreen \<Rightarrow> alert_screen_view" where
  "AlertScreen_render s =
     (if AlertScreen.loading s then AlertLoading
      else
        (case alert s of
           None \<Rightarrow> NoActiveAlerts
         | Some a \<Rightarrow>
             (let emergency = (type a = ''emergency'')
              in AlertDetails
                   \<lparr>isEmergency = emergency,
                    alertColor = (if emergency then ''#FF3B30'' else ''#FFCC00''),
                    alertIcon = (if emergency then ''alert-circle'' else ''warning''),
                    messageText = description a,
                    triggeredAt = timestamp a,
                    showsEmergencyInstructions = emergency,
                    acknowledgeDisabled = acknowledging s\<rparr>)))"

datatype control = BackButton | BackToHomeButton | AcknowledgeButton

text \<open>The controls of each view that react to a press.\<close>

fun controls :: "alert_screen_view \<Rightarrow> control list" where
  "controls AlertLoading = []"
| "controls NoActiveAlerts = [BackButton, BackToHomeButton]"
| "controls (AlertDetails d) =
     (if acknowledgeDisabled d then [BackButton] else [BackButton, AcknowledgeButton])"

text \<open>The effects that are log entries.\<close>

fun is_log :: "effect \<Rightarrow> bool" where
  "is_log (ConsoleError message e) = True"
| "is_log e = False"

subsection \<open>Event log: relative time\<close>

text \<open>
  The decimal rendering of an integer, as a template literal gives it
  (\<^verbatim>\<open>`${minutes}m ago`\<close>).
\<close>

definition digit_char :: "nat \<Rightarrow> char" where
  "digit_char d = ''0123456789'' ! d"

function digits_of_nat :: "nat \<Rightarrow> string" where
  "digits_of_nat n =
     (if n < 10 then [digit_char n] else digits_of_nat (n div 10) @ [digit_char (n mod 10)])"
  by pat_completeness auto
termination
  by (relation "measure (\<lambda>n. n)") auto

definition Number_toString :: "int \<Rightarrow> string" where
  "Number_toString i = (if i < 0 then CHR ''-'' # digits_of_nat (nat (- i)) else digits_of_nat (nat i))"

text \<open>
  \<^verbatim>\<open>formatDateTime\<close> of the event log. \<open>now\<close> is \<^verbatim>\<open>new Date().getTime()\<close>
  and \<open>date\<close> is \<^verbatim>\<open>new Date(timestamp).getTime()\<close>, both in milliseconds, with
  \<open>None\<close> for the \<^verbatim>\<open>NaN\<close> of an unparsable time stamp: every comparison with
  \<^verbatim>\<open>NaN\<close> is false, so the code reaches its last \<^verbatim>\<open>return\<close>. The locale
  formatter \<^verbatim>\<open>toLocaleDateString('en-US', ...)\<close> belongs to the platform and is a
  parameter. \<^verbatim>\<open>Math.floor\<close> of a quotient is \<open>div\<close> on \<open>int\<close>, which rounds
  towards minus infinity.
\<close>

definition formatDateTime :: "(int option \<Rightarrow> string) \<Rightarrow> int \<Rightarrow> int option \<Rightarrow> string" where
  "formatDateTime toLocaleDateString now date =
     (case date of
        None \<Rightarrow> toLocaleDateString None
      | Some d \<Rightarrow>
          (let diff = now - d;
               minutes = diff div 60000;
               hours = minutes div 60;
               days = hours div 24
           in if minutes < 1 then ''Just now''
              else if minutes < 60 then Number_toString minutes @ ''m ago''
              else if hours < 24 then Number_toString hours @ ''h ago''
              else if days < 7 then Number_toString days @ ''d ago''
              else toLocaleDateString (Some d)))"

text \<open>
  A formatter to evaluate \<open>formatDateTime\<close> with at concrete inputs: it prints the
  number of milliseconds.
\<close>

definition milliseconds_text :: "int option \<Rightarrow> string" where
  "milliseconds_text date =
     (case date of None \<Rightarrow> ''Invalid Date'' | Some d \<Rightarrow> Number_toString d @ '' ms'')"

subsection \<open>Home screen: the refresh timer\<close>

text \<open>
  The interval timers of the JavaScript runtime, in milliseconds: \<open>remaining\<close> counts
  down to the next firing and starts again from \<open>period\<close>.
\<close>

datatype callback = FetchData

record interval_timer =
  handle :: nat
  period :: nat
  remaining :: nat
  callback :: callback

text \<open>
  The mounted component with the runtime around it: the React state, the constant
  \<^verbatim>\<open>interval\<close> that the cleanup closure holds, the active timers, the number of
  \<^verbatim>\<open>fetchData\<close> calls made so far and all effects so far. The network is a
  function \<open>net\<close> from the number of a call to the way its reads settle; a call runs
  to completion before anything else happens.
\<close>

record HomeSystem =
  screen :: HomeScreen
  mounted :: bool
  interval :: "nat option"
  timers :: "interval_timer list"
  next_handle :: nat
  fetch_count :: nat
  effects :: "effect list"

definition HomeSystem_initial :: HomeSystem where
  "HomeSystem_initial =
     \<lparr>screen = HomeScreen_initial, mounted = False, interval = None, timers = [],
      next_handle = 0, fetch_count = 0, effects = []\<rparr>"

definition call_fetchData :: "(nat \<Rightarrow> home_responses) \<Rightarrow> HomeSystem \<Rightarrow> HomeSystem" where
  "call_fetchData net sys =
     (let (s', effs) = fetchData (net (fetch_count sys)) (screen sys)
      in sys\<lparr>screen := s', fetch_count := Suc (fetch_count sys),
              effects := effects sys @ effs\<rparr>)"

fun run_callback :: "(nat \<Rightarrow> home_responses) \<Rightarrow> callback \<Rightarrow> HomeSystem \<Rightarrow> HomeSystem" where
  "run_callback net FetchData sys = call_fetchData net sys"

definition setInterval :: "callback \<Rightarrow> nat \<Rightarrow> HomeSystem \<Rightarrow> nat \<times> HomeSystem" where
  "setInterval cb ms sys =
     (next_handle sys,
      sys\<lparr>timers := timers sys @
                [\<lparr>handle = next_handle sys, period = ms, remaining = ms, callback = cb\<rparr>],
          next_handle := Suc (next_handle sys)\<rparr>)"

definition clearInterval :: "nat \<Rightarrow> HomeSystem \<Rightarrow> HomeSystem" where
  "clearInterval h sys = sys\<lparr>timers := filter (\<lambda>t. handle t \<noteq> h) (timers sys)\<rparr>"

text \<open>
  The effect of \<^verbatim>\<open>useEffect(..., [])\<close>: its body runs once, when the screen is
  mounted.
\<close>

definition mount :: "(nat \<Rightarrow> home_responses) \<Rightarrow> HomeSystem \<Rightarrow> HomeSystem" where
  "mount net sys =
     (let sys1 = call_fetchData net sys;
          (h, sys2) = setInterval FetchData 30000 sys1
      in sys2\<lparr>interval := Some h, mounted := True\<rparr>)"

text \<open>The function the effect returns runs when the screen is torn down.\<close>

definition unmount :: "HomeSystem \<Rightarrow> HomeSystem" where
  "unmount sys =
     (case interval sys of
        None \<Rightarrow> sys\<lparr>mounted := False\<rparr>
      | Some h \<Rightarrow> (clearInterval h sys)\<lparr>mounted := False\<rparr>)"

text \<open>One millisecond passes: every timer counts down, and those that reach zero fire.\<close>

definition tick_timer :: "interval_timer \<Rightarrow> interval_timer \<times> bool" where
  "tick_timer t =
     (if remaining t \<le> 1 then (t\<lparr>remaining := period t\<rparr>, True)
      else (t\<lparr>remaining := remaining t - 1\<rparr>, False))"

definition tick :: "(nat \<Rightarrow> home_responses) \<Rightarrow> HomeSystem \<Rightarrow> HomeSystem" where
  "tick net sys =
     (let ts = map tick_timer (timers sys);
          fired = map (\<lambda>p. callback (fst p)) (filter snd ts)
      in fold (run_callback net) fired (sys\<lparr>timers := map fst ts\<rparr>))"

primrec advance :: "(nat \<Rightarrow> home_responses) \<Rightarrow> nat \<Rightarrow> HomeSystem \<Rightarrow> HomeSystem" where
  "advance net 0 sys = sys"
| "advance net (Suc n) sys = advance net n (tick net sys)"

text \<open>
  A network to evaluate the system with at concrete inputs: every read succeeds, the
  device is connected and SAFE, and there is no alert.
\<close>

definition steady_network :: "nat \<Rightarrow> home_responses" where
  "steady_network k =
     \<lparr>statusRes = Fulfilled (Some \<lparr>current_status = Some ''SAFE'', last_updated = ''t'',
                                      status_description = None\<rparr>),
      connRes = Fulfilled (Some \<lparr>is_connected = True, last_ping = ''t''\<rparr>),
      alertRes = Fulfilled None\<rparr>"

section \<open>Properties\<close>

subsection \<open>Status classification, colour and icon\<close>

lemma getStatusColor_recognised:
  "getStatusColor ''SAFE'' = JString ''#34C759''"
  "getStatusColor ''WARNING'' = JString ''#FFCC00''"
  "getStatusColor ''EMERGENCY'' = JString ''#FF3B30''"
  by (simp_all add: getStatusColor_def get_property_def STATUS_COLORS_def js_or_def)

lemma getStatusColor_unrecognised:
  assumes "c \<notin> set recognised"
  shows "getStatusColor c =
           (if c \<in> set Object_prototype_keys then JInherited c else JString ''#999999'')"
  using assms
  by (simp add: getStatusColor_def get_property_def STATUS_COLORS_def js_or_def recognised_def)

lemma currentStatus_missing:
  "classification_missing st \<Longrightarrow> currentStatus st = ''SAFE''"
  by (auto simp: classification_missing_def currentStatus_def split: option.splits)

lemma currentStatus_present:
  "current_status x = Some c \<Longrightarrow> c \<noteq> [] \<Longrightarrow> currentStatus (Some x) = c"
  by (simp add: currentStatus_def)

text \<open>
  C1 (as amended). A snapshot whose classification is missing (no snapshot, no
  \<^verbatim>\<open>current_status\<close> field, or the empty string) is displayed as SAFE with the
  SAFE colour \<^verbatim>\<open>#34C759\<close>. A non-empty classification that is not SAFE, WARNING
  or EMERGENCY is displayed verbatim and does not get the SAFE colour.
\<close>

theorem C1_missing_defaults_to_SAFE:
  "(classification_missing st \<longrightarrow>
      currentStatus st = ''SAFE'' \<and> statusColor st = JString ''#34C759'') \<and>
   (current_status x = Some c \<and> c \<noteq> [] \<and> c \<notin> set recognised \<longrightarrow>
      currentStatus (Some x) = c \<and> statusColor (Some x) \<noteq> JString ''#34C759'')"
proof (intro conjI impI)
  assume m: "classification_missing st"
  show "currentStatus st = ''SAFE''" using m by (rule currentStatus_missing)
  then show "statusColor st = JString ''#34C759''"
    by (simp add: statusColor_def getStatusColor_recognised)
next
  assume h: "current_status x = Some c \<and> c \<noteq> [] \<and> c \<notin> set recognised"
  then show cur: "currentStatus (Some x) = c" by (simp add: currentStatus_present)
  from h have "getStatusColor c \<noteq> JString ''#34C759''"
    by (simp add: getStatusColor_unrecognised)
  with cur show "statusColor (Some x) \<noteq> JString ''#34C759''"
    by (simp add: statusColor_def)
qed

theorem C1_missing_defaults_to_SAFE_witness:
  "classification_missing None \<and> currentStatus None = ''SAFE'' \<and>
   statusColor None = JString ''#34C759'' \<and>
   ''UNKNOWN'' \<notin> set recognised \<and>
   currentStatus (Some \<lparr>current_status = Some ''UNKNOWN'', last_updated = ''t'',
                         status_description = None\<rparr>) = ''UNKNOWN'' \<and>
   statusColor (Some \<lparr>current_status = Some ''UNKNOWN'', last_updated = ''t'',
                       status_description = None\<rparr>) \<noteq> JString ''#34C759''"
  using C1_missing_defaults_to_SAFE [of None
      "\<lparr>current_status = Some ''UNKNOWN'', last_updated = ''t'', status_description = None\<rparr>"
      "''UNKNOWN''"]
  by (simp add: classification_missing_def recognised_def)

text \<open>
  C1 as stated fails: the unrecognised classification \<^verbatim>\<open>UNKNOWN\<close> is neither
  displayed as SAFE nor given the SAFE colour.
\<close>

theorem C1_unrecognised_is_not_SAFE_counterexample:
  "''UNKNOWN'' \<notin> set recognised \<and>
   \<not> (currentStatus (Some \<lparr>current_status = Some ''UNKNOWN'', last_updated = ''t'',
                              status_description = None\<rparr>) = ''SAFE'' \<and>
      statusColor (Some \<lparr>current_status = Some ''UNKNOWN'', last_updated = ''t'',
                          status_description = None\<rparr>) = JString ''#34C759'')"
  by (simp add: recognised_def currentStatus_def)

lemma HomeScreen_render_loaded:
  "HomeScreen.loading s = False \<Longrightarrow>
     HomeScreen_render s \<noteq> HomeLoading \<and>
     statusText (the_view (HomeScreen_render s)) = currentStatus (status s) \<and>
     statusBadgeColor (the_view (HomeScreen_render s)) = statusColor (status s) \<and>
     statusBadgeIcon (the_view (HomeScreen_render s)) = statusIcon (currentStatus (status s))"
  by (simp add: HomeScreen_render_def Let_def statusColor_def)

text \<open>
  C9 (as amended). On the loaded home screen, a non-empty classification that is not
  SAFE, WARNING or EMERGENCY and is not the name of a member inherited from
  \<^verbatim>\<open>Object.prototype\<close> is shown verbatim, with the neutral colour
  \<^verbatim>\<open>#999999\<close> and the icon \<^verbatim>\<open>alert-circle\<close>, which is also the icon of
  EMERGENCY.
\<close>

theorem C9_unrecognised_rendering:
  assumes "HomeScreen.loading s = False" and "status s = Some x"
    and "current_status x = Some c" and "c \<noteq> []"
    and "c \<notin> set recognised" and "c \<notin> set Object_prototype_keys"
  shows "HomeScreen_render s \<noteq> HomeLoading \<and>
         statusText (the_view (HomeScreen_render s)) = c \<and>
         statusBadgeColor (the_view (HomeScreen_render s)) = JString ''#999999'' \<and>
         statusBadgeIcon (the_view (HomeScreen_render s)) = ''alert-circle'' \<and>
         statusIcon ''EMERGENCY'' = ''alert-circle''"
proof -
  have cur: "currentStatus (status s) = c"
    using assms(2-4) by (simp add: currentStatus_present)
  have col: "statusColor (status s) = JString ''#999999''"
    using cur assms(5,6) by (simp add: statusColor_def getStatusColor_unrecognised)
  have icon: "statusIcon c = ''alert-circle''"
    using assms(5) by (simp add: statusIcon_def recognised_def)
  show ?thesis
    using HomeScreen_render_loaded [OF assms(1)] cur col icon
    by (simp add: statusIcon_def)
qed

theorem C9_unrecognised_rendering_witness:
  "HomeScreen.loading
     \<lparr>status = Some \<lparr>current_status = Some ''UNKNOWN'', last_updated = ''t'',
                       status_description = None\<rparr>,
      connection = None, latestAlert = None, loading = False, refreshing = False\<rparr> = False \<and>
   ''UNKNOWN'' \<noteq> [] \<and> ''UNKNOWN'' \<notin> set recognised \<and>
   ''UNKNOWN'' \<notin> set Object_prototype_keys \<and>
   statusText (the_view (HomeScreen_render
     \<lparr>status = Some \<lparr>current_status = Some ''UNKNOWN'', last_updated = ''t'',
                       status_description = None\<rparr>,
      connection = None, latestAlert = None, loading = False, refreshing = False\<rparr>))
     = ''UNKNOWN'' \<and>
   statusBadgeColor (the_view (HomeScreen_render
     \<lparr>status = Some \<lparr>current_status = Some ''UNKNOWN'', last_updated = ''t'',
                       status_description = None\<rparr>,
      connection = None, latestAlert = None, loading = False, refreshing = False\<rparr>))
     = JString ''#999999'' \<and>
   statusBadgeIcon (the_view (HomeScreen_render
     \<lparr>status = Some \<lparr>current_status = Some ''UNKNOWN'', last_updated = ''t'',
                       status_description = None\<rparr>,
      connection = None, latestAlert = None, loading = False, refreshing = False\<rparr>))
     = ''alert-circle''"
proof -
  have h1: "HomeScreen.loading
     \<lparr>status = Some \<lparr>current_status = Some ''UNKNOWN'', last_updated = ''t'',
                       status_description = None\<rparr>,
      connection = None, latestAlert = None, loading = False, refreshing = False\<rparr> = False"
    by simp
  have h2: "status
     \<lparr>status = Some \<lparr>current_status = Some ''UNKNOWN'', last_updated = ''t'',
                       status_description = None\<rparr>,
      connection = None, latestAlert = None, loading = False, refreshing = False\<rparr>
     = Some \<lparr>current_status = Some ''UNKNOWN'', last_updated = ''t'',
                       status_description = None\<rparr>"
    by simp
  have h3: "current_status \<lparr>current_status = Some ''UNKNOWN'', last_updated = ''t'',
                       status_description = None\<rparr> = Some ''UNKNOWN''"
    by simp
  have h4: "''UNKNOWN'' \<noteq> []" by simp
  have h5: "''UNKNOWN'' \<notin> set recognised" by (simp add: recognised_def)
  have h6: "''UNKNOWN'' \<notin> set Object_prototype_keys" by (simp add: Object_prototype_keys_def)
  show ?thesis
    using C9_unrecognised_rendering [OF h1 h2 h3 h4 h5 h6] h5 h6 by simp
qed

text \<open>
  C9 as stated fails for the empty string, a string outside the three classifications:
  it is falsy, so the screen shows SAFE in the SAFE colour with the SAFE icon.
\<close>

theorem C9_empty_string_counterexample:
  "[] \<notin> set recognised \<and>
   \<not> (statusText (the_view (HomeScreen_render
        \<lparr>status = Some \<lparr>current_status = Some [], last_updated = ''t'',
                          status_description = None\<rparr>,
         connection = None, latestAlert = None, loading = False, refreshing = False\<rparr>)) = [] \<and>
      statusBadgeColor (the_view (HomeScreen_render
        \<lparr>status = Some \<lparr>current_status = Some [], last_updated = ''t'',
                          status_description = None\<rparr>,
         connection = None, latestAlert = None, loading = False, refreshing = False\<rparr>))
        = JString ''#999999'' \<and>
      statusBadgeIcon (the_view (HomeScreen_render
        \<lparr>status = Some \<lparr>current_status = Some [], last_updated = ''t'',
                          status_description = None\<rparr>,
         connection = None, latestAlert = None, loading = False, refreshing = False\<rparr>))
        = ''alert-circle'')"
  by (simp add: recognised_def HomeScreen_render_def currentStatus_def Let_def)

subsection \<open>Acknowledging an alert\<close>

lemma handleAcknowledge_no_alert:
  "alert s = None \<Longrightarrow> handleAcknowledge res s = (s, [])"
  by (simp add: handleAcknowledge_def handleAcknowledge_begin_def)

lemma handleAcknowledge_held:
  "alert s = Some a \<Longrightarrow>
   handleAcknowledge res s =
     (s\<lparr>acknowledging := False\<rparr>,
      HttpPost ''/alerts/acknowledge'' [(''alert_id'', id' a)] #
      snd (handleAcknowledge_resume res (s\<lparr>acknowledging := True\<rparr>)))"
  by (simp add: handleAcknowledge_def handleAcknowledge_begin_def handleAcknowledge_resume_def
      Let_def)

lemma handleAcknowledge_network_error:
  "alert s = Some a \<Longrightarrow>
   handleAcknowledge (Rejected e) s =
     (s\<lparr>acknowledging := False\<rparr>,
      [HttpPost ''/alerts/acknowledge'' [(''alert_id'', id' a)],
       ConsoleError ''Error acknowledging alert:'' e,
       RNAlert ''Error'' ''Failed to acknowledge alert'' []])"
  by (simp add: handleAcknowledge_held handleAcknowledge_resume_def)

text \<open>
  C2: the code at a failing input. The POST is answered with status 500 while an alert
  is held: the only effect is the request itself. Nothing is logged and no dialog is
  shown, whereas the rejected promise of \<open>handleAcknowledge_network_error\<close> gets both.
\<close>

theorem C2_rejected_write_shows_no_notice:
  "\<not> ok \<lparr>http_status = 500\<rparr> \<and>
   handleAcknowledge (Fulfilled \<lparr>http_status = 500\<rparr>)
     \<lparr>alert = Some \<lparr>id' = ''a1'', type = ''emergency'', description = ''Obstacle ahead'',
                     timestamp = ''T'', acknowledged = False\<rparr>,
      loading = False, acknowledging = False\<rparr> =
   (\<lparr>alert = Some \<lparr>id' = ''a1'', type = ''emergency'', description = ''Obstacle ahead'',
                     timestamp = ''T'', acknowledged = False\<rparr>,
      loading = False, acknowledging = False\<rparr>,
    [HttpPost ''/alerts/acknowledge'' [(''alert_id'', ''a1'')]])"
  by (simp add: handleAcknowledge_held handleAcknowledge_resume_def ok_def)

text \<open>
  C3 (as amended). When an alert is held and the POST is answered with a 2xx status:
  up to the \<^verbatim>\<open>await\<close> the handler only sets the busy flag and issues the
  request; once the reply has settled it shows the dialog \<^verbatim>\<open>Alert Acknowledged\<close>,
  whose button OK navigates back, and clears the busy flag. The alert held by the screen is
  not changed.
\<close>

theorem C3_success_confirms_then_offers_back:
  assumes "alert s = Some a" and "ok response"
  shows "handleAcknowledge_begin s =
           Some (s\<lparr>acknowledging := True\<rparr>,
                 HttpPost ''/alerts/acknowledge'' [(''alert_id'', id' a)]) \<and>
         handleAcknowledge (Fulfilled response) s =
           (s\<lparr>acknowledging := False\<rparr>,
            [HttpPost ''/alerts/acknowledge'' [(''alert_id'', id' a)],
             RNAlert ''Alert Acknowledged'' ''The alert has been marked as acknowledged.''
               [(''OK'', RouterBack)]]) \<and>
         alert (fst (handleAcknowledge (Fulfilled response) s)) = Some a"
  using assms
  by (simp add: handleAcknowledge_held handleAcknowledge_resume_def handleAcknowledge_begin_def)

theorem C3_success_confirms_then_offers_back_witness:
  "ok \<lparr>http_status = 200\<rparr> \<and>
   handleAcknowledge (Fulfilled \<lparr>http_status = 200\<rparr>)
     \<lparr>alert = Some \<lparr>id' = ''a1'', type = ''emergency'', description = ''Obstacle ahead'',
                     timestamp = ''T'', acknowledged = False\<rparr>,
      loading = False, acknowledging = False\<rparr> =
   (\<lparr>alert = Some \<lparr>id' = ''a1'', type = ''emergency'', description = ''Obstacle ahead'',
                     timestamp = ''T'', acknowledged = False\<rparr>,
      loading = False, acknowledging = False\<rparr>,
    [HttpPost ''/alerts/acknowledge'' [(''alert_id'', ''a1'')],
     RNAlert ''Alert Acknowledged'' ''The alert has been marked as acknowledged.''
       [(''OK'', RouterBack)]])"
proof -
  have h1: "alert \<lparr>alert = Some \<lparr>id' = ''a1'', type = ''emergency'',
                     description = ''Obstacle ahead'', timestamp = ''T'', acknowledged = False\<rparr>,
      loading = False, acknowledging = False\<rparr> =
      Some \<lparr>id' = ''a1'', type = ''emergency'',
                     description = ''Obstacle ahead'', timestamp = ''T'', acknowledged = False\<rparr>"
    by simp
  have h2: "ok \<lparr>http_status = 200\<rparr>" by (simp add: ok_def)
  show ?thesis
    using C3_success_confirms_then_offers_back [OF h1 h2] h2 by simp
qed

text \<open>
  C3 as stated fails: after a successful acknowledgement the screen still holds the
  alert and still renders its details, not the view without alerts.
\<close>

theorem C3_alert_still_held_counterexample:
  "ok \<lparr>http_status = 200\<rparr> \<and>
   AlertScreen_render (fst (handleAcknowledge (Fulfilled \<lparr>http_status = 200\<rparr>)
     \<lparr>alert = Some \<lparr>id' = ''a1'', type = ''emergency'', description = ''Obstacle ahead'',
                     timestamp = ''T'', acknowledged = False\<rparr>,
      loading = False, acknowledging = False\<rparr>)) \<noteq> NoActiveAlerts \<and>
   alert (fst (handleAcknowledge (Fulfilled \<lparr>http_status = 200\<rparr>)
     \<lparr>alert = Some \<lparr>id' = ''a1'', type = ''emergency'', description = ''Obstacle ahead'',
                     timestamp = ''T'', acknowledged = False\<rparr>,
      loading = False, acknowledging = False\<rparr>)) \<noteq> None"
  by (simp add: handleAcknowledge_held ok_def AlertScreen_render_def)

text \<open>
  C6. When the read of the latest alert returns \<^verbatim>\<open>null\<close>, the screen renders
  the view without alerts, which has no acknowledge button; and
  \<^verbatim>\<open>handleAcknowledge\<close> with no alert held issues no request and leaves the state
  as it is, however the POST would have settled.
\<close>

theorem C6_no_alert_no_acknowledge:
  "AlertScreen_render (fst (fetchLatestAlert (Fulfilled None) s)) = NoActiveAlerts \<and>
   AcknowledgeButton \<notin> set (controls (AlertScreen_render (fst (fetchLatestAlert (Fulfilled None) s)))) \<and>
   (alert s' = None \<longrightarrow> handleAcknowledge res s' = (s', []))"
  by (simp add: fetchLatestAlert_def AlertScreen_render_def handleAcknowledge_no_alert)

theorem C6_no_alert_no_acknowledge_witness:
  "alert (fst (fetchLatestAlert (Fulfilled None) AlertScreen_initial)) = None \<and>
   AlertScreen_render (fst (fetchLatestAlert (Fulfilled None) AlertScreen_initial)) = NoActiveAlerts \<and>
   handleAcknowledge (Fulfilled \<lparr>http_status = 200\<rparr>)
     (fst (fetchLatestAlert (Fulfilled None) AlertScreen_initial)) =
     (fst (fetchLatestAlert (Fulfilled None) AlertScreen_initial), [])"
  using C6_no_alert_no_acknowledge [of AlertScreen_initial
      "fst (fetchLatestAlert (Fulfilled None) AlertScreen_initial)" "Fulfilled \<lparr>http_status = 200\<rparr>"]
  by (simp add: fetchLatestAlert_def)

subsection \<open>Refreshing the home screen\<close>

text \<open>
  C4 (as amended). When exactly one of the three reads of a refresh is rejected and the
  other two would succeed, the rejected resource keeps its previous value, and so does
  every resource that comes after it in the order status, connection, latest alert,
  because its read is not issued any more; a resource that comes before it takes its
  newly fetched value.
\<close>

theorem C4_refresh_stops_at_first_failure:
  "fetchData \<lparr>statusRes = Rejected e, connRes = Fulfilled c, alertRes = Fulfilled a\<rparr> s =
     (s\<lparr>HomeScreen.loading := False, refreshing := False\<rparr>,
      [HttpGet ''/status'', ConsoleError ''Error fetching data:'' e]) \<and>
   fetchData \<lparr>statusRes = Fulfilled st, connRes = Rejected e, alertRes = Fulfilled a\<rparr> s =
     (s\<lparr>status := st, HomeScreen.loading := False, refreshing := False\<rparr>,
      [HttpGet ''/status'', HttpGet ''/connection'', ConsoleError ''Error fetching data:'' e]) \<and>
   fetchData \<lparr>statusRes = Fulfilled st, connRes = Fulfilled c, alertRes = Rejected e\<rparr> s =
     (s\<lparr>status := st, connection := c, HomeScreen.loading := False, refreshing := False\<rparr>,
      [HttpGet ''/status'', HttpGet ''/connection'', HttpGet ''/alerts/latest'',
       ConsoleError ''Error fetching data:'' e])"
  by (simp add: fetchData_def)

text \<open>
  C4 as stated fails: when the read of the connection is rejected, the status read before
  it has already replaced the status, here SAFE by EMERGENCY, so that resource is not
  unchanged from before the refresh. The alert that the third read would have delivered
  is not shown either: that read is never issued.
\<close>

theorem C4_status_replaced_counterexample:
  "status (fst (fetchData
      \<lparr>statusRes = Fulfilled (Some \<lparr>current_status = Some ''EMERGENCY'', last_updated = ''t2'',
                                       status_description = None\<rparr>),
       connRes = Rejected ''Network request failed'',
       alertRes = Fulfilled (Some \<lparr>id' = ''a1'', type = ''emergency'',
                                     description = ''Obstacle ahead'', timestamp = ''t2'',
                                     acknowledged = False\<rparr>)\<rparr>
      \<lparr>status = Some \<lparr>current_status = Some ''SAFE'', last_updated = ''t1'',
                        status_description = None\<rparr>,
       connection = Some \<lparr>is_connected = True, last_ping = ''t1''\<rparr>,
       latestAlert = None, loading = False, refreshing = False\<rparr>))
   \<noteq> status
      \<lparr>status = Some \<lparr>current_status = Some ''SAFE'', last_updated = ''t1'',
                        status_description = None\<rparr>,
       connection = Some \<lparr>is_connected = True, last_ping = ''t1''\<rparr>,
       latestAlert = None, loading = False, refreshing = False\<rparr> \<and>
   latestAlert (fst (fetchData
      \<lparr>statusRes = Fulfilled (Some \<lparr>current_status = Some ''EMERGENCY'', last_updated = ''t2'',
                                       status_description = None\<rparr>),
       connRes = Rejected ''Network request failed'',
       alertRes = Fulfilled (Some \<lparr>id' = ''a1'', type = ''emergency'',
                                     description = ''Obstacle ahead'', timestamp = ''t2'',
                                     acknowledged = False\<rparr>)\<rparr>
      \<lparr>status = Some \<lparr>current_status = Some ''SAFE'', last_updated = ''t1'',
                        status_description = None\<rparr>,
       connection = Some \<lparr>is_connected = True, last_ping = ''t1''\<rparr>,
       latestAlert = None, loading = False, refreshing = False\<rparr>)) = None"
  by (simp add: fetchData_def)

lemma run_events_Cons_fst:
  "fst (run_events (ev # evs) s) = fst (run_events evs (fst (home_event_step ev s)))"
  by (simp add: case_prod_unfold Let_def)

lemma home_event_step_loading:
  "HomeScreen.loading (fst (home_event_step ev s)) = (HomeScreen.loading s \<and> \<not> completes ev)"
proof (cases ev)
  case (StatusSettled res)
  then show ?thesis
    by (cases res) (simp_all add: status_settled_def fetchData_finally_def)
next
  case (ConnectionSettled res)
  then show ?thesis
    by (cases res) (simp_all add: connection_settled_def fetchData_finally_def)
next
  case (AlertSettled res)
  then show ?thesis
    by (cases res) (simp_all add: alert_settled_def fetchData_finally_def)
qed simp_all

lemma run_events_loading:
  "HomeScreen.loading (fst (run_events evs s)) = (HomeScreen.loading s \<and> \<not> list_ex completes evs)"
proof (induction evs arbitrary: s)
  case Nil
  then show ?case by simp
next
  case (Cons ev evs)
  show ?case
    by (simp only: run_events_Cons_fst Cons.IH home_event_step_loading list_ex_Cons_iff) blast
qed

lemma fetchData_as_events:
  "fetchData r s = run_events (FetchDataCalled # settlements r) s"
  by (simp add: fetchData_def settlements_def status_settled_def connection_settled_def
      alert_settled_def fetchData_finally_def split: settled.splits)

lemma fetchData_log:
  "filter is_log (snd (fetchData r s)) =
     (case first_rejection r of
        None \<Rightarrow> []
      | Some e \<Rightarrow> [ConsoleError ''Error fetching data:'' e])"
  by (simp add: fetchData_def first_rejection_def split: settled.splits)

lemma fetchData_old_or_new:
  "status (fst (fetchData r s)) = status s \<or> statusRes r = Fulfilled (status (fst (fetchData r s)))"
  "connection (fst (fetchData r s)) = connection s \<or>
     connRes r = Fulfilled (connection (fst (fetchData r s)))"
  "latestAlert (fst (fetchData r s)) = latestAlert s \<or>
     alertRes r = Fulfilled (latestAlert (fst (fetchData r s)))"
  by (simp_all add: fetchData_def split: settled.splits)

lemma home_event_step_old_or_new:
  "status (fst (home_event_step ev s)) = status s \<or>
     ev = StatusSettled (Fulfilled (status (fst (home_event_step ev s))))"
  "connection (fst (home_event_step ev s)) = connection s \<or>
     ev = ConnectionSettled (Fulfilled (connection (fst (home_event_step ev s))))"
  "latestAlert (fst (home_event_step ev s)) = latestAlert s \<or>
     ev = AlertSettled (Fulfilled (latestAlert (fst (home_event_step ev s))))"
  by (cases ev; simp add: status_settled_def connection_settled_def alert_settled_def
        fetchData_finally_def split: settled.splits)+

text \<open>
  C8. On the home screen, in every order in which calls of \<^verbatim>\<open>fetchData\<close> are made
  and their reads settle, the loading flag is true exactly as long as no call has passed
  its \<^verbatim>\<open>finally\<close>, and once it is false nothing makes it true again. A call is
  such a run of events; a rejected read is caught and logged with
  \<^verbatim>\<open>console.error\<close>, and the handler returns a state. Every event leaves each
  resource at its previous value or sets it to the value just fetched, so a failure never
  blanks it. On the alert screen \<^verbatim>\<open>fetchLatestAlert\<close> clears the loading flag
  however the read settles, and a rejected read is logged and leaves the alert as it was.
\<close>

theorem C8_fetch_failures_are_contained:
  "HomeScreen.loading (fst (run_events evs HomeScreen_initial)) = (\<not> list_ex completes evs) \<and>
   (HomeScreen.loading s = False \<longrightarrow> HomeScreen.loading (fst (run_events evs s)) = False) \<and>
   fetchData r s = run_events (FetchDataCalled # settlements r) s \<and>
   filter is_log (snd (fetchData r s)) =
     (case first_rejection r of
        None \<Rightarrow> []
      | Some e \<Rightarrow> [ConsoleError ''Error fetching data:'' e]) \<and>
   (status (fst (home_event_step ev s)) = status s \<or>
      ev = StatusSettled (Fulfilled (status (fst (home_event_step ev s))))) \<and>
   (connection (fst (home_event_step ev s)) = connection s \<or>
      ev = ConnectionSettled (Fulfilled (connection (fst (home_event_step ev s))))) \<and>
   (latestAlert (fst (home_event_step ev s)) = latestAlert s \<or>
      ev = AlertSettled (Fulfilled (latestAlert (fst (home_event_step ev s))))) \<and>
   AlertScreen.loading (fst (fetchLatestAlert res a)) = False \<and>
   fetchLatestAlert (Rejected e) a =
     (a\<lparr>AlertScreen.loading := False\<rparr>,
      [HttpGet ''/alerts/latest'', ConsoleError ''Error fetching alert:'' e])"
proof (intro conjI impI)
  show "HomeScreen.loading (fst (run_events evs HomeScreen_initial)) = (\<not> list_ex completes evs)"
    by (simp add: run_events_loading HomeScreen_initial_def)
next
  assume "HomeScreen.loading s = False"
  then show "HomeScreen.loading (fst (run_events evs s)) = False"
    by (simp add: run_events_loading)
next
  show "AlertScreen.loading (fst (fetchLatestAlert res a)) = False"
    by (simp add: fetchLatestAlert_def split: settled.splits)
  show "fetchLatestAlert (Rejected e) a =
     (a\<lparr>AlertScreen.loading := False\<rparr>,
      [HttpGet ''/alerts/latest'', ConsoleError ''Error fetching alert:'' e])"
    by (simp add: fetchLatestAlert_def)
qed (rule fetchData_log fetchData_as_events home_event_step_old_or_new)+

theorem C8_fetch_failures_are_contained_witness:
  "HomeScreen.loading (fst (fetchData
     \<lparr>statusRes = Rejected ''Network request failed'', connRes = Fulfilled None,
      alertRes = Fulfilled None\<rparr> HomeScreen_initial)) = False \<and>
   HomeScreen.loading (fst (run_events
     [RefreshPressed, FetchDataCalled, StatusSettled (Fulfilled None),
      StatusSettled (Rejected ''Network request failed''), ConnectionSettled (Fulfilled None)]
     (fst (fetchData
       \<lparr>statusRes = Rejected ''Network request failed'', connRes = Fulfilled None,
        alertRes = Fulfilled None\<rparr> HomeScreen_initial)))) = False"
  using C8_fetch_failures_are_contained [of
    "[RefreshPressed, FetchDataCalled, StatusSettled (Fulfilled None),
      StatusSettled (Rejected ''Network request failed''), ConnectionSettled (Fulfilled None)]"
    "fst (fetchData
       \<lparr>statusRes = Rejected ''Network request failed'', connRes = Fulfilled None,
        alertRes = Fulfilled None\<rparr> HomeScreen_initial)"]
  by (simp add: HomeScreen_initial_def fetchData_def)

subsection \<open>Relative times in the event log\<close>

lemma digits_of_nat_small: "n < 10 \<Longrightarrow> digits_of_nat n = [digit_char n]"
  by simp

lemma digit_char_values:
  "digit_char 2 = CHR ''2''" "digit_char 3 = CHR ''3''" "digit_char 5 = CHR ''5''"
  by (simp_all add: digit_char_def)

lemma Number_toString_examples:
  "Number_toString 5 = ''5''" "Number_toString 3 = ''3''" "Number_toString 2 = ''2''"
  by (simp_all add: Number_toString_def digit_char_values)

lemma formatDateTime_elapsed:
  assumes "0 \<le> now - d"
  shows "formatDateTime fmt now (Some d) =
           (if now - d < 60000 then ''Just now''
            else if now - d < 3600000 then Number_toString ((now - d) div 60000) @ ''m ago''
            else if now - d < 86400000 then Number_toString ((now - d) div 3600000) @ ''h ago''
            else if now - d < 604800000 then Number_toString ((now - d) div 86400000) @ ''d ago''
            else fmt (Some d))"
proof -
  let ?x = "now - d"
  have h: "?x div 60000 div 60 = ?x div 3600000" "?x div 3600000 div 24 = ?x div 86400000"
    by (simp_all add: div_mult2_eq [symmetric])
  have m1: "(?x div 60000 < 1) = (?x < 60000)" using assms by arith
  have m2: "(?x div 60000 < 60) = (?x < 3600000)" by arith
  have m3: "(?x div 3600000 < 24) = (?x < 86400000)" by arith
  have m4: "(?x div 86400000 < 7) = (?x < 604800000)" by arith
  show ?thesis
    unfolding formatDateTime_def Let_def
    by (simp only: option.case h m1 m2 m3 m4)
qed

text \<open>
  C5 (as amended). \<open>formatDateTime\<close> depends only on the time stamp and the current
  time. For a time stamp that is not in the future it returns \<^verbatim>\<open>Just now\<close>, with a
  capital J, when less than a minute has elapsed, \<^verbatim>\<open>Nm ago\<close> with the whole minutes
  below an hour, \<^verbatim>\<open>Nh ago\<close> with the whole hours below a day, \<^verbatim>\<open>Nd ago\<close> with
  the whole days below seven days, and the platform's short date otherwise. Exactly 5
  minutes give \<^verbatim>\<open>5m ago\<close>, 3 hours \<^verbatim>\<open>3h ago\<close>, 2 days \<^verbatim>\<open>2d ago\<close>, and 10
  days the short date.
\<close>

theorem C5_relative_time:
  "(0 \<le> now - d \<longrightarrow>
      formatDateTime fmt now (Some d) =
        (if now - d < 60000 then ''Just now''
         else if now - d < 3600000 then Number_toString ((now - d) div 60000) @ ''m ago''
         else if now - d < 86400000 then Number_toString ((now - d) div 3600000) @ ''h ago''
         else if now - d < 604800000 then Number_toString ((now - d) div 86400000) @ ''d ago''
         else fmt (Some d))) \<and>
   formatDateTime fmt (d + 300000) (Some d) = ''5m ago'' \<and>
   formatDateTime fmt (d + 10800000) (Some d) = ''3h ago'' \<and>
   formatDateTime fmt (d + 172800000) (Some d) = ''2d ago'' \<and>
   formatDateTime fmt (d + 864000000) (Some d) = fmt (Some d)"
proof (intro conjI impI)
  assume "0 \<le> now - d"
  then show "formatDateTime fmt now (Some d) =
        (if now - d < 60000 then ''Just now''
         else if now - d < 3600000 then Number_toString ((now - d) div 60000) @ ''m ago''
         else if now - d < 86400000 then Number_toString ((now - d) div 3600000) @ ''h ago''
         else if now - d < 604800000 then Number_toString ((now - d) div 86400000) @ ''d ago''
         else fmt (Some d))"
    by (rule formatDateTime_elapsed)
next
  show "formatDateTime fmt (d + 300000) (Some d) = ''5m ago''"
    by (simp add: formatDateTime_elapsed Number_toString_examples)
  show "formatDateTime fmt (d + 10800000) (Some d) = ''3h ago''"
    by (simp add: formatDateTime_elapsed Number_toString_examples)
  show "formatDateTime fmt (d + 172800000) (Some d) = ''2d ago''"
    by (simp add: formatDateTime_elapsed Number_toString_examples)
  show "formatDateTime fmt (d + 864000000) (Some d) = fmt (Some d)"
    by (simp add: formatDateTime_elapsed)
qed

theorem C5_relative_time_witness:
  "(0::int) \<le> 1700000059999 - 1700000000000 \<and>
   formatDateTime milliseconds_text 1700000059999 (Some 1700000000000) = ''Just now'' \<and>
   formatDateTime milliseconds_text 1700000300000 (Some 1700000000000) = ''5m ago''"
  using C5_relative_time [of 1700000059999 1700000000000 milliseconds_text]
  by simp

text \<open>
  C5 as stated fails: with no time elapsed the result is \<^verbatim>\<open>Just now\<close>, not the
  lower-case \<^verbatim>\<open>just now\<close>.
\<close>

theorem C5_lower_case_counterexample:
  "(0::int) \<le> 1700000000000 - 1700000000000 \<and>
   formatDateTime milliseconds_text 1700000000000 (Some 1700000000000) \<noteq> ''just now''"
  by (simp add: formatDateTime_def)

text \<open>
  C10. For a time stamp strictly in the future the result is \<^verbatim>\<open>Just now\<close>: the
  number of minutes is negative, hence below 1.
\<close>

theorem C10_future_is_Just_now:
  assumes "now < d"
  shows "formatDateTime fmt now (Some d) = ''Just now''"
proof -
  have "(now - d) div 60000 < 1" using assms by arith
  then show ?thesis by (simp add: formatDateTime_def Let_def)
qed

theorem C10_future_is_Just_now_witness:
  "(1700000000000::int) < 1700000000001 \<and>
   formatDateTime milliseconds_text 1700000000000 (Some 1700000000001) = ''Just now'' \<and>
   formatDateTime milliseconds_text 0 (Some 864000000) = ''Just now''"
proof -
  have h1: "(1700000000000::int) < 1700000000001" by simp
  have h2: "(0::int) < 864000000" by simp
  show ?thesis
    using C10_future_is_Just_now [OF h1, of milliseconds_text]
      C10_future_is_Just_now [OF h2, of milliseconds_text] by simp
qed

subsection \<open>The refresh timer of the home screen\<close>

lemma call_fetchData_fields:
  "timers (call_fetchData net sys) = timers sys"
  "interval (call_fetchData net sys) = interval sys"
  "next_handle (call_fetchData net sys) = next_handle sys"
  "fetch_count (call_fetchData net sys) = Suc (fetch_count sys)"
  "screen (call_fetchData net sys) = fst (fetchData (net (fetch_count sys)) (screen sys))"
  "effects (call_fetchData net sys) =
     effects sys @ snd (fetchData (net (fetch_count sys)) (screen sys))"
  by (simp_all add: call_fetchData_def case_prod_unfold Let_def)

lemma run_callbacks_fields:
  "timers (fold (run_callback net) cbs sys) = timers sys"
  "interval (fold (run_callback net) cbs sys) = interval sys"
proof (induction cbs arbitrary: sys)
  case Nil
  { case 1 show ?case by simp }
  { case 2 show ?case by simp }
next
  case (Cons cb cbs)
  { case 1 show ?case by (cases cb) (simp add: Cons.IH call_fetchData_fields) }
  { case 2 show ?case by (cases cb) (simp add: Cons.IH call_fetchData_fields) }
qed

lemma tick_timer_handle: "handle (fst (tick_timer t)) = handle t"
  by (simp add: tick_timer_def)

lemma tick_handles:
  "map handle (timers (tick net sys)) = map handle (timers sys)"
  "interval (tick net sys) = interval sys"
  by (simp_all add: tick_def Let_def run_callbacks_fields tick_timer_handle comp_def)

lemma advance_handles:
  "map handle (timers (advance net m sys)) = map handle (timers sys) \<and>
   interval (advance net m sys) = interval sys"
  by (induction m arbitrary: sys) (simp_all add: tick_handles)

lemma mount_fields:
  "timers (mount net sys) =
     timers sys @
     [\<lparr>handle = next_handle sys, period = 30000, remaining = 30000, callback = FetchData\<rparr>]"
  "interval (mount net sys) = Some (next_handle sys)"
  "fetch_count (mount net sys) = Suc (fetch_count sys)"
  "screen (mount net sys) = fst (fetchData (net (fetch_count sys)) (screen sys))"
  "effects (mount net sys) = effects sys @ snd (fetchData (net (fetch_count sys)) (screen sys))"
  by (simp_all add: mount_def setInterval_def call_fetchData_fields case_prod_unfold Let_def)

lemma unmount_clears_handle:
  "interval sys = Some h \<Longrightarrow> filter (\<lambda>t. handle t = h) (timers (unmount sys)) = []"
  by (simp add: unmount_def clearInterval_def filter_empty_conv)

lemma filter_by_handles:
  "filter (\<lambda>t. handle t = h) ts = [] \<longleftrightarrow> h \<notin> set (map handle ts)"
  by (induction ts) auto

lemma tick_single:
  assumes "timers sys = [t]" and "callback t = FetchData"
  shows "timers (tick net sys) =
           [if remaining t \<le> 1 then t\<lparr>remaining := period t\<rparr>
            else t\<lparr>remaining := remaining t - 1\<rparr>]"
    and "fetch_count (tick net sys) =
           (if remaining t \<le> 1 then Suc (fetch_count sys) else fetch_count sys)"
    and "interval (tick net sys) = interval sys"
  using assms by (simp_all add: tick_def tick_timer_def call_fetchData_fields)

lemma advance_single:
  assumes "timers sys = [t]" and "callback t = FetchData"
    and "0 < remaining t" and "remaining t \<le> period t"
  shows "timers (advance net m sys) =
           [t\<lparr>remaining := period t - (period t - remaining t + m) mod period t\<rparr>] \<and>
         fetch_count (advance net m sys) =
           fetch_count sys + (period t - remaining t + m) div period t \<and>
         interval (advance net m sys) = interval sys"
  using assms
proof (induction m arbitrary: sys t)
  case 0
  then show ?case by simp
next
  case (Suc m)
  let ?P = "period t"
  show ?case
  proof (cases "remaining t \<le> 1")
    case True
    with Suc.prems have r: "remaining t = 1" by simp
    let ?t' = "t\<lparr>remaining := ?P\<rparr>"
    have t': "timers (tick net sys) = [?t']" using tick_single(1) [OF Suc.prems(1,2)] True by simp
    have c': "fetch_count (tick net sys) = Suc (fetch_count sys)"
      using tick_single(2) [OF Suc.prems(1,2)] True by simp
    have i': "interval (tick net sys) = interval sys" by (rule tick_single(3) [OF Suc.prems(1,2)])
    have P: "0 < ?P" using Suc.prems by simp
    have IH: "timers (advance net m (tick net sys)) =
           [?t'\<lparr>remaining := period ?t' - (period ?t' - remaining ?t' + m) mod period ?t'\<rparr>] \<and>
         fetch_count (advance net m (tick net sys)) =
           fetch_count (tick net sys) + (period ?t' - remaining ?t' + m) div period ?t' \<and>
         interval (advance net m (tick net sys)) = interval (tick net sys)"
      by (rule Suc.IH [OF t']) (use Suc.prems P in simp_all)
    have a1: "(?P - 1 + Suc m) mod ?P = m mod ?P" using P by simp
    have "(?P + m) div ?P = m div ?P + 1" using P by (simp add: div_add_self1)
    then have a2: "(?P - 1 + Suc m) div ?P = Suc (m div ?P)" using P by simp
    show ?thesis using IH c' i' r a1 a2 by simp
  next
    case False
    let ?t' = "t\<lparr>remaining := remaining t - 1\<rparr>"
    have t': "timers (tick net sys) = [?t']" using tick_single(1) [OF Suc.prems(1,2)] False by simp
    have c': "fetch_count (tick net sys) = fetch_count sys"
      using tick_single(2) [OF Suc.prems(1,2)] False by simp
    have i': "interval (tick net sys) = interval sys" by (rule tick_single(3) [OF Suc.prems(1,2)])
    have IH: "timers (advance net m (tick net sys)) =
           [?t'\<lparr>remaining := period ?t' - (period ?t' - remaining ?t' + m) mod period ?t'\<rparr>] \<and>
         fetch_count (advance net m (tick net sys)) =
           fetch_count (tick net sys) + (period ?t' - remaining ?t' + m) div period ?t' \<and>
         interval (advance net m (tick net sys)) = interval (tick net sys)"
      by (rule Suc.IH [OF t']) (use Suc.prems False in simp_all)
    have a: "?P - (remaining t - 1) + m = ?P - remaining t + Suc m"
      using Suc.prems False by simp
    have b: "Suc (?P + m) - remaining t = Suc (?P + m - remaining t)"
      using Suc.prems by simp
    show ?thesis using IH c' i' a b by simp
  qed
qed

lemma tick_no_timers: "timers sys = [] \<Longrightarrow> tick net sys = sys"
  by (simp add: tick_def)

lemma advance_no_timers: "timers sys = [] \<Longrightarrow> advance net n sys = sys"
  by (induction n) (simp_all add: tick_no_timers)

lemma fetchData_all_fulfilled:
  "fetchData \<lparr>statusRes = Fulfilled st, connRes = Fulfilled c, alertRes = Fulfilled a\<rparr> s =
     (s\<lparr>status := st, connection := c, latestAlert := a,
        HomeScreen.loading := False, refreshing := False\<rparr>,
      [HttpGet ''/status'', HttpGet ''/connection'', HttpGet ''/alerts/latest''])"
  by (simp add: fetchData_def)

lemma tick_single_eq:
  assumes "timers sys = [t]" and "callback t = FetchData"
  shows "tick net sys =
           (if remaining t \<le> 1 then call_fetchData net (sys\<lparr>timers := [t\<lparr>remaining := period t\<rparr>]\<rparr>)
            else sys\<lparr>timers := [t\<lparr>remaining := remaining t - 1\<rparr>]\<rparr>)"
  using assms by (simp add: tick_def tick_timer_def)

lemma advance_add: "advance net (a + b) sys = advance net b (advance net a sys)"
  by (induction a arbitrary: sys) simp_all

lemma advance_quiet:
  assumes "timers sys = [t]" and "callback t = FetchData" and "m < remaining t"
  shows "advance net m sys = sys\<lparr>timers := [t\<lparr>remaining := remaining t - m\<rparr>]\<rparr>"
  using assms
proof (induction m arbitrary: sys t)
  case 0
  then show ?case by simp
next
  case (Suc m)
  let ?t' = "t\<lparr>remaining := remaining t - 1\<rparr>"
  let ?sys' = "sys\<lparr>timers := [?t']\<rparr>"
  have step: "tick net sys = ?sys'"
    using tick_single_eq [OF Suc.prems(1,2)] Suc.prems(3) by simp
  have "advance net m ?sys' = ?sys'\<lparr>timers := [?t'\<lparr>remaining := remaining ?t' - m\<rparr>]\<rparr>"
    by (rule Suc.IH) (use Suc.prems in simp_all)
  then show ?case by (simp add: step)
qed

lemma advance_fire:
  assumes "timers sys = [t]" and "callback t = FetchData" and "0 < remaining t"
  shows "advance net (remaining t) sys =
           call_fetchData net (sys\<lparr>timers := [t\<lparr>remaining := period t\<rparr>]\<rparr>)"
proof -
  obtain k where k: "remaining t = Suc k" using assms(3) by (cases "remaining t") auto
  have q: "advance net k sys = sys\<lparr>timers := [t\<lparr>remaining := remaining t - k\<rparr>]\<rparr>"
    by (rule advance_quiet [OF assms(1,2)]) (simp add: k)
  have "advance net (k + 1) sys = tick net (advance net k sys)"
    by (simp only: advance_add) simp
  also have "\<dots> = call_fetchData net (sys\<lparr>timers := [t\<lparr>remaining := period t\<rparr>]\<rparr>)"
    using tick_single_eq [of "sys\<lparr>timers := [t\<lparr>remaining := remaining t - k\<rparr>]\<rparr>"
        "t\<lparr>remaining := remaining t - k\<rparr>" net] assms(2)
    by (simp add: q k)
  finally show ?thesis by (simp add: k)
qed

lemma advance_one_period:
  assumes "timers sys = [t]" and "callback t = FetchData"
    and "0 < remaining t" and "remaining t \<le> period t"
  shows "advance net (period t) sys =
           (call_fetchData net sys)\<lparr>timers := [t]\<rparr>"
proof -
  let ?r = "remaining t"
  let ?X = "call_fetchData net (sys\<lparr>timers := [t\<lparr>remaining := period t\<rparr>]\<rparr>)"
  have split: "period t = ?r + (period t - ?r)" using assms(4) by simp
  have X: "timers ?X = [t\<lparr>remaining := period t\<rparr>]" by (simp add: call_fetchData_fields)
  have "advance net (?r + (period t - ?r)) sys = advance net (period t - ?r) ?X"
    by (simp only: advance_add advance_fire [OF assms(1-3)])
  also have "\<dots> = ?X\<lparr>timers := [t\<lparr>remaining := period t\<rparr>\<lparr>remaining :=
                  remaining (t\<lparr>remaining := period t\<rparr>) - (period t - ?r)\<rparr>]\<rparr>"
    by (rule advance_quiet [OF X]) (use assms in simp_all)
  also have "\<dots> = (call_fetchData net sys)\<lparr>timers := [t]\<rparr>"
    using assms by (simp add: call_fetchData_def case_prod_unfold Let_def)
  finally show ?thesis using split by simp
qed

lemma advance_after_mount:
  assumes "timers sys = []"
  shows "timers (advance net m (mount net sys)) =
           [\<lparr>handle = next_handle sys, period = 30000, remaining = 30000 - m mod 30000,
             callback = FetchData\<rparr>]"
    and "fetch_count (advance net m (mount net sys)) = fetch_count sys + 1 + m div 30000"
  using advance_single [of "mount net sys"
      "\<lparr>handle = next_handle sys, period = 30000, remaining = 30000, callback = FetchData\<rparr>"
      net m] assms
  by (simp_all add: mount_fields)

lemma refresh_after_one_period:
  assumes "timers sys = []"
  shows "screen (advance net (m + 30000) (mount net sys)) =
           fst (fetchData (net (fetch_count sys + 1 + m div 30000))
                  (screen (advance net m (mount net sys))))"
    and "effects (advance net (m + 30000) (mount net sys)) =
           effects (advance net m (mount net sys)) @
           snd (fetchData (net (fetch_count sys + 1 + m div 30000))
                  (screen (advance net m (mount net sys))))"
proof -
  let ?A = "advance net m (mount net sys)"
  let ?t = "\<lparr>handle = next_handle sys, period = 30000, remaining = 30000 - m mod 30000,
             callback = FetchData\<rparr>"
  have t: "timers ?A = [?t]" by (rule advance_after_mount(1) [OF assms])
  have c: "fetch_count ?A = fetch_count sys + 1 + m div 30000"
    by (rule advance_after_mount(2) [OF assms])
  have "advance net (period ?t) ?A = (call_fetchData net ?A)\<lparr>timers := [?t]\<rparr>"
    by (rule advance_one_period [OF t]) simp_all
  then have eq: "advance net (m + 30000) (mount net sys) = (call_fetchData net ?A)\<lparr>timers := [?t]\<rparr>"
    by (simp add: advance_add)
  show "screen (advance net (m + 30000) (mount net sys)) =
           fst (fetchData (net (fetch_count sys + 1 + m div 30000)) (screen ?A))"
    by (simp add: eq call_fetchData_fields c)
  show "effects (advance net (m + 30000) (mount net sys)) =
           effects ?A @ snd (fetchData (net (fetch_count sys + 1 + m div 30000)) (screen ?A))"
    by (simp add: eq call_fetchData_fields c)
qed

lemma first_period_after_mount:
  assumes "timers sys = []" and "m < 30000"
  shows "screen (advance net m (mount net sys)) =
           fst (fetchData (net (fetch_count sys)) (screen sys))"
    and "effects (advance net m (mount net sys)) =
           effects sys @ snd (fetchData (net (fetch_count sys)) (screen sys))"
proof -
  let ?t = "\<lparr>handle = next_handle sys, period = 30000, remaining = 30000, callback = FetchData\<rparr>"
  have t: "timers (mount net sys) = [?t]" using assms(1) by (simp add: mount_fields)
  have eq: "advance net m (mount net sys) =
          (mount net sys)\<lparr>timers := [?t\<lparr>remaining := remaining ?t - m\<rparr>]\<rparr>"
    by (rule advance_quiet [OF t]) (use assms(2) in simp_all)
  show "screen (advance net m (mount net sys)) =
           fst (fetchData (net (fetch_count sys)) (screen sys))"
    by (simp add: eq mount_fields)
  show "effects (advance net m (mount net sys)) =
           effects sys @ snd (fetchData (net (fetch_count sys)) (screen sys))"
    by (simp add: eq mount_fields)
qed

lemma unmount_after_mount:
  assumes "timers sys = []"
  shows "timers (unmount (advance net m (mount net sys))) = []"
proof -
  have "interval (advance net m (mount net sys)) = Some (next_handle sys)"
    by (simp add: advance_handles mount_fields)
  then show ?thesis
    by (simp add: unmount_def clearInterval_def advance_after_mount(1) [OF assms])
qed

text \<open>
  C7. Whatever state the runtime is in when the home screen is mounted, the handle that
  the cleanup closure holds is the handle of the timer that the mount registered, and
  tearing the screen down at any later moment removes that timer. When the screen owns no
  other timer, mounting registers exactly one, with a period of 30000 milliseconds (30
  seconds) and \<^verbatim>\<open>fetchData\<close> as its callback, and it stays the only one. The mount
  itself runs \<^verbatim>\<open>fetchData\<close> on the screen, and nothing else happens to the screen
  or its effects during the first 30 seconds; every further 30 seconds add exactly one
  run of \<^verbatim>\<open>fetchData\<close> on the screen as it is then, so that after \<open>m\<close>
  milliseconds it has run once for the mount and once for every full 30 seconds. A run
  whose three reads succeed requests all three resources and replaces them. After the
  teardown there is no timer, and the passing of time changes nothing: no refresh fires.
\<close>

theorem C7_refresh_timer:
  "interval (advance net m (mount net sys)) = Some (next_handle sys) \<and>
   map handle (timers (advance net m (mount net sys))) =
     map handle (timers sys) @ [next_handle sys] \<and>
   filter (\<lambda>t. handle t = next_handle sys)
     (timers (unmount (advance net m (mount net sys)))) = [] \<and>
   (timers sys = [] \<longrightarrow>
      timers (mount net sys) =
        [\<lparr>handle = next_handle sys, period = 30000, remaining = 30000,
          callback = FetchData\<rparr>] \<and>
      timers (advance net m (mount net sys)) =
        [\<lparr>handle = next_handle sys, period = 30000, remaining = 30000 - m mod 30000,
          callback = FetchData\<rparr>] \<and>
      fetch_count (advance net m (mount net sys)) = fetch_count sys + 1 + m div 30000 \<and>
      (m < 30000 \<longrightarrow>
         screen (advance net m (mount net sys)) =
           fst (fetchData (net (fetch_count sys)) (screen sys)) \<and>
         effects (advance net m (mount net sys)) =
           effects sys @ snd (fetchData (net (fetch_count sys)) (screen sys))) \<and>
      screen (advance net (m + 30000) (mount net sys)) =
        fst (fetchData (net (fetch_count sys + 1 + m div 30000))
               (screen (advance net m (mount net sys)))) \<and>
      effects (advance net (m + 30000) (mount net sys)) =
        effects (advance net m (mount net sys)) @
        snd (fetchData (net (fetch_count sys + 1 + m div 30000))
               (screen (advance net m (mount net sys)))) \<and>
      (net (fetch_count sys + 1 + m div 30000) =
         \<lparr>statusRes = Fulfilled st, connRes = Fulfilled c, alertRes = Fulfilled a\<rparr> \<longrightarrow>
         screen (advance net (m + 30000) (mount net sys)) =
           (screen (advance net m (mount net sys)))
             \<lparr>status := st, connection := c, latestAlert := a,
              HomeScreen.loading := False, refreshing := False\<rparr> \<and>
         effects (advance net (m + 30000) (mount net sys)) =
           effects (advance net m (mount net sys)) @
           [HttpGet ''/status'', HttpGet ''/connection'', HttpGet ''/alerts/latest'']) \<and>
      timers (unmount (advance net m (mount net sys))) = [] \<and>
      advance net n (unmount (advance net m (mount net sys))) =
        unmount (advance net m (mount net sys)))"
proof (intro conjI impI)
  show i: "interval (advance net m (mount net sys)) = Some (next_handle sys)"
    by (simp add: advance_handles mount_fields)
  show "map handle (timers (advance net m (mount net sys))) =
          map handle (timers sys) @ [next_handle sys]"
    by (simp add: advance_handles mount_fields)
  show "filter (\<lambda>t. handle t = next_handle sys)
          (timers (unmount (advance net m (mount net sys)))) = []"
    using i by (rule unmount_clears_handle)
next
  assume e: "timers sys = []"
  show "timers (mount net sys) =
        [\<lparr>handle = next_handle sys, period = 30000, remaining = 30000,
          callback = FetchData\<rparr>]"
    using e by (simp add: mount_fields)
  show "timers (advance net m (mount net sys)) =
        [\<lparr>handle = next_handle sys, period = 30000, remaining = 30000 - m mod 30000,
          callback = FetchData\<rparr>]"
    by (rule advance_after_mount(1) [OF e])
  show "fetch_count (advance net m (mount net sys)) = fetch_count sys + 1 + m div 30000"
    by (rule advance_after_mount(2) [OF e])
  show s1: "screen (advance net (m + 30000) (mount net sys)) =
        fst (fetchData (net (fetch_count sys + 1 + m div 30000))
               (screen (advance net m (mount net sys))))"
    by (rule refresh_after_one_period(1) [OF e])
  show e1: "effects (advance net (m + 30000) (mount net sys)) =
        effects (advance net m (mount net sys)) @
        snd (fetchData (net (fetch_count sys + 1 + m div 30000))
               (screen (advance net m (mount net sys))))"
    by (rule refresh_after_one_period(2) [OF e])
  show u: "timers (unmount (advance net m (mount net sys))) = []"
    by (rule unmount_after_mount [OF e])
  show "advance net n (unmount (advance net m (mount net sys))) =
        unmount (advance net m (mount net sys))"
    using u by (rule advance_no_timers)
  {
    assume "m < 30000"
    then show "screen (advance net m (mount net sys)) =
           fst (fetchData (net (fetch_count sys)) (screen sys))"
      and "effects (advance net m (mount net sys)) =
           effects sys @ snd (fetchData (net (fetch_count sys)) (screen sys))"
      by (rule first_period_after_mount [OF e])+
  }
  {
    assume f: "net (fetch_count sys + 1 + m div 30000) =
         \<lparr>statusRes = Fulfilled st, connRes = Fulfilled c, alertRes = Fulfilled a\<rparr>"
    show "screen (advance net (m + 30000) (mount net sys)) =
           (screen (advance net m (mount net sys)))
             \<lparr>status := st, connection := c, latestAlert := a,
              HomeScreen.loading := False, refreshing := False\<rparr>"
      by (simp only: s1 f fetchData_all_fulfilled fst_conv)
    show "effects (advance net (m + 30000) (mount net sys)) =
           effects (advance net m (mount net sys)) @
           [HttpGet ''/status'', HttpGet ''/connection'', HttpGet ''/alerts/latest'']"
      by (simp only: e1 f fetchData_all_fulfilled snd_conv)
  }
qed

theorem C7_refresh_timer_witness:
  "timers HomeSystem_initial = [] \<and> (0::nat) < 30000 \<and>
   timers (mount steady_network HomeSystem_initial) =
     [\<lparr>handle = 0, period = 30000, remaining = 30000, callback = FetchData\<rparr>] \<and>
   effects (mount steady_network HomeSystem_initial) =
     [HttpGet ''/status'', HttpGet ''/connection'', HttpGet ''/alerts/latest''] \<and>
   effects (advance steady_network 30000 (mount steady_network HomeSystem_initial)) =
     [HttpGet ''/status'', HttpGet ''/connection'', HttpGet ''/alerts/latest'',
      HttpGet ''/status'', HttpGet ''/connection'', HttpGet ''/alerts/latest''] \<and>
   HomeScreen_render (screen (mount steady_network HomeSystem_initial)) \<noteq> HomeLoading \<and>
   timers (unmount (mount steady_network HomeSystem_initial)) = [] \<and>
   advance steady_network 60000 (unmount (mount steady_network HomeSystem_initial)) =
     unmount (mount steady_network HomeSystem_initial)"
proof -
  have h1: "timers HomeSystem_initial = []" by (simp add: HomeSystem_initial_def)
  have h2: "(0::nat) < 30000" by simp
  have h3: "steady_network (fetch_count HomeSystem_initial + 1 + 0 div 30000) =
     \<lparr>statusRes = Fulfilled (Some \<lparr>current_status = Some ''SAFE'', last_updated = ''t'',
                                      status_description = None\<rparr>),
      connRes = Fulfilled (Some \<lparr>is_connected = True, last_ping = ''t''\<rparr>),
      alertRes = Fulfilled None\<rparr>"
    by (simp add: steady_network_def)
  have nh: "next_handle HomeSystem_initial = 0" "effects HomeSystem_initial = []"
    "screen HomeSystem_initial = HomeScreen_initial" "fetch_count HomeSystem_initial = 0"
    by (simp_all add: HomeSystem_initial_def)
  have f0: "fetchData (steady_network 0) HomeScreen_initial =
    (\<lparr>status = Some \<lparr>current_status = Some ''SAFE'', last_updated = ''t'',
                       status_description = None\<rparr>,
      connection = Some \<lparr>is_connected = True, last_ping = ''t''\<rparr>,
      latestAlert = None, loading = False, refreshing = False\<rparr>,
     [HttpGet ''/status'', HttpGet ''/connection'', HttpGet ''/alerts/latest''])"
    by (simp add: steady_network_def fetchData_def HomeScreen_initial_def)
  note th = C7_refresh_timer [of steady_network 0 HomeSystem_initial
      "Some \<lparr>current_status = Some ''SAFE'', last_updated = ''t'', status_description = None\<rparr>"
      "Some \<lparr>is_connected = True, last_ping = ''t''\<rparr>" None 60000]
  show ?thesis
    using th h1 h2 h3 by (simp add: nh f0 HomeScreen_render_def fetchData_all_fulfilled Let_def)
qed

end
